theory Spec2Isabelle
  imports Main
begin

section \<open>JavaScript values\<close>

text \<open>
  The raw records of the backend are untyped (\<^verbatim>\<open>dbUser: any\<close>): a field holds a string,
  \<^verbatim>\<open>null\<close>, a boolean or a nested object, and reading a key that the object does not
  have gives \<^verbatim>\<open>undefined\<close>. Numbers are left out: no column that the code reads holds
  one, and printing a number is floating-point work.
\<close>

datatype jsval =
    JUndefined
  | JNull
  | JBool bool
  | JStr string
  | JObj "(string \<times> jsval) list"

type_synonym row = "(string \<times> jsval) list"

text \<open>JavaScript truthiness: what \<^verbatim>\<open>!v\<close>, \<^verbatim>\<open>v ? a : b\<close> and \<^verbatim>\<open>v || w\<close> test.\<close>

fun truthy :: "jsval \<Rightarrow> bool" where
  "truthy JUndefined = False"
| "truthy JNull = False"
| "truthy (JBool b) = b"
| "truthy (JStr s) = (s \<noteq> [])"
| "truthy (JObj kvs) = True"

text \<open>\<^verbatim>\<open>a || b\<close>: the left operand when it is truthy, the right one otherwise.\<close>

definition js_or :: "jsval \<Rightarrow> jsval \<Rightarrow> jsval" where
  "js_or a b = (if truthy a then a else b)"

text \<open>The string a template literal \<^verbatim>\<open>`${v}`\<close> puts in place of the value.\<close>

fun ToString :: "jsval \<Rightarrow> string" where
  "ToString JUndefined = ''undefined''"
| "ToString JNull = ''null''"
| "ToString (JBool b) = (if b then ''true'' else ''false'')"
| "ToString (JStr s) = s"
| "ToString (JObj kvs) = ''[object Object]''"

text \<open>\<^verbatim>\<open>obj.key\<close> on an object literal or a parsed JSON object.\<close>

definition field :: "row \<Rightarrow> string \<Rightarrow> jsval" where
  "field obj k = (case map_of obj k of None \<Rightarrow> JUndefined | Some v \<Rightarrow> v)"

text \<open>
  \<^verbatim>\<open>v.key\<close> on a value the code has already found truthy: an object gives its field, a
  string or a boolean has no such property.
\<close>

fun getprop :: "jsval \<Rightarrow> string \<Rightarrow> jsval" where
  "getprop (JObj kvs) k = field kvs k"
| "getprop v k = JUndefined"

section \<open>The canonical user and the profile mapper (supabaseAuth.ts)\<close>

record vendor_summary =
  id_vendor :: jsval
  shopname :: jsval
  status_vendor :: jsval

text \<open>
  The interface \<^verbatim>\<open>User\<close>. The mapper copies fields of an untyped record and casts the
  role without a check, so at run time every field but \<^verbatim>\<open>name\<close> holds whatever the
  record held; \<^verbatim>\<open>vendor\<close> is \<^verbatim>\<open>undefined\<close> (here \<open>None\<close>) or the three-field summary.
\<close>

record User =
  id_user :: jsval
  email :: jsval
  firstName :: jsval
  lastName :: jsval
  role :: jsval
  status :: jsval
  avatar :: jsval
  phone :: jsval
  vendor :: "vendor_summary option"
  name :: string

definition mapDatabaseUserToUser :: "row \<Rightarrow> User" where
  "mapDatabaseUserToUser dbUser =
     \<lparr> id_user = field dbUser ''id'',
       email = field dbUser ''email'',
       firstName = js_or (field dbUser ''first_name'') (field dbUser ''firstName''),
       lastName = js_or (field dbUser ''last_name'') (field dbUser ''lastName''),
       role = field dbUser ''role'',
       status = field dbUser ''status'',
       avatar = field dbUser ''avatar'',
       phone = field dbUser ''phone'',
       vendor =
         (if truthy (field dbUser ''vendor'')
          then Some \<lparr> id_vendor = getprop (field dbUser ''vendor'') ''id'',
                      shopname = getprop (field dbUser ''vendor'') ''shopname'',
                      status_vendor = getprop (field dbUser ''vendor'') ''status'' \<rparr>
          else None),
       name =
         ToString (js_or (field dbUser ''first_name'') (field dbUser ''firstName''))
           @ '' '' @
         ToString (js_or (field dbUser ''last_name'') (field dbUser ''lastName'')) \<rparr>"

section \<open>Result envelopes and the backend\<close>

text \<open>An \<^verbatim>\<open>Error\<close> object (or the client's error object) and its message.\<close>

datatype js_error = JsError string

fun message :: "js_error \<Rightarrow> string" where
  "message (JsError m) = m"

datatype 'a envelope = Success 'a | Failure string

text \<open>
  Modelled from the spec: \<^verbatim>\<open>handleSupabaseSuccess\<close> is imported from
  \<^verbatim>\<open>lib/supabase.ts\<close>, which is not among the sources. The result envelope is tagged
  success or failure, and success carries the payload. A payload that may be \<^verbatim>\<open>null\<close>
  is an \<open>option\<close>.
\<close>

definition handleSupabaseSuccess :: "'a \<Rightarrow> 'a envelope" where
  "handleSupabaseSuccess d = Success d"

text \<open>
  Modelled from the spec: \<^verbatim>\<open>handleSupabaseError\<close> is imported from the same missing
  file. A failure carries a human-readable message, taken verbatim from the error.
\<close>

definition handleSupabaseError :: "js_error \<Rightarrow> 'a envelope" where
  "handleSupabaseError e = Failure (message e)"

text \<open>
  The hosted backend, as far as the service reads it. The answers of the auth provider
  are arbitrary; the \<^verbatim>\<open>users\<close> table is a list of rows, \<open>vendors_embed\<close> is the joined
  \<^verbatim>\<open>vendor:vendors(id, shopname, status)\<close> of a user id, and \<open>users_fault\<close> is the
  transport or protocol fault, if any, that a request to the table meets.
\<close>

record auth_user =
  auth_id :: string

datatype session = Session string

record signIn_response =
  si_user :: "auth_user option"
  si_session :: "session option"
  si_error :: "js_error option"

record getUser_response =
  gu_user :: "auth_user option"
  gu_error :: "js_error option"

record query_response =
  q_data :: "row option"
  q_error :: "js_error option"

record backend =
  signInWithPassword :: "string \<Rightarrow> string \<Rightarrow> signIn_response"
  getUser :: getUser_response
  auth_signOut :: "js_error option"
  users :: "row list"
  vendors_embed :: "jsval \<Rightarrow> jsval"
  users_fault :: "js_error option"

text \<open>
  The client's two ways to end a query, as the repository's notes on the 406 error tell
  them apart: \<^verbatim>\<open>.single()\<close> answers zero rows with the error PGRST116, \<^verbatim>\<open>.maybeSingle()\<close>
  answers them with \<^verbatim>\<open>data: null\<close> and no error. More than one row is an error for
  both; \<^verbatim>\<open>.maybeSingle()\<close> words it itself.
\<close>

definition PGRST116 :: js_error where
  "PGRST116 = JsError ''Cannot coerce the result to a single JSON object''"

definition multiple_rows :: js_error where
  "multiple_rows = JsError ''JSON object requested, multiple (or no) rows returned''"

definition maybeSingle :: "js_error option \<Rightarrow> row list \<Rightarrow> query_response" where
  "maybeSingle fault rows =
     (case fault of
        Some e \<Rightarrow> \<lparr> q_data = None, q_error = Some e \<rparr>
      | None \<Rightarrow>
          (case rows of
             [] \<Rightarrow> \<lparr> q_data = None, q_error = None \<rparr>
           | [r] \<Rightarrow> \<lparr> q_data = Some r, q_error = None \<rparr>
           | _ \<Rightarrow> \<lparr> q_data = None, q_error = Some multiple_rows \<rparr>))"

definition single :: "js_error option \<Rightarrow> row list \<Rightarrow> query_response" where
  "single fault rows =
     (case fault of
        Some e \<Rightarrow> \<lparr> q_data = None, q_error = Some e \<rparr>
      | None \<Rightarrow>
          (case rows of
             [r] \<Rightarrow> \<lparr> q_data = Some r, q_error = None \<rparr>
           | _ \<Rightarrow> \<lparr> q_data = None, q_error = Some PGRST116 \<rparr>))"

text \<open>\<^verbatim>\<open>.from('users').select(`*, vendor:vendors(id, shopname, status)`).eq('id', v)\<close>\<close>

definition select_users_with_vendor :: "backend \<Rightarrow> jsval \<Rightarrow> row list" where
  "select_users_with_vendor be v =
     map (\<lambda>r. (''vendor'', vendors_embed be (field r ''id'')) # r)
       (filter (\<lambda>r. field r ''id'' = v) (users be))"

section \<open>The authentication service (SupabaseAuthService)\<close>

record signIn_data =
  data_user :: User
  data_session :: session

definition signIn :: "backend \<Rightarrow> string \<Rightarrow> string \<Rightarrow> signIn_data option envelope" where
  "signIn be email_arg password =
     (let authData = signInWithPassword be email_arg password in
      case si_error authData of
        Some authError \<Rightarrow> handleSupabaseError authError
      | None \<Rightarrow>
          (case (si_user authData, si_session authData) of
             (Some au, Some sess) \<Rightarrow>
               (let q = maybeSingle (users_fault be)
                          (select_users_with_vendor be (JStr (auth_id au))) in
                case q_error q of
                  Some userError \<Rightarrow> handleSupabaseError userError
                | None \<Rightarrow>
                    (case q_data q of
                       None \<Rightarrow> handleSupabaseError (JsError ''User profile not found'')
                     | Some userData \<Rightarrow>
                         handleSupabaseSuccess
                           (Some \<lparr> data_user = mapDatabaseUserToUser userData,
                                   data_session = sess \<rparr>)))
           | _ \<Rightarrow> handleSupabaseError (JsError ''Failed to sign in'')))"

definition signOut :: "backend \<Rightarrow> unit option envelope" where
  "signOut be =
     (case auth_signOut be of
        Some e \<Rightarrow> handleSupabaseError e
      | None \<Rightarrow> handleSupabaseSuccess None)"

definition getCurrentUser :: "backend \<Rightarrow> User option envelope" where
  "getCurrentUser be =
     (case gu_error (getUser be) of
        Some authError \<Rightarrow> handleSupabaseError authError
      | None \<Rightarrow>
          (case gu_user (getUser be) of
             None \<Rightarrow> handleSupabaseSuccess None
           | Some authUser \<Rightarrow>
               (let q = maybeSingle (users_fault be)
                          (select_users_with_vendor be (JStr (auth_id authUser))) in
                case q_error q of
                  Some userError \<Rightarrow> handleSupabaseError userError
                | None \<Rightarrow>
                    (case q_data q of
                       None \<Rightarrow> handleSupabaseSuccess None
                     | Some userData \<Rightarrow>
                         handleSupabaseSuccess (Some (mapDatabaseUserToUser userData))))))"

text \<open>
  \<^verbatim>\<open>updateProfile\<close> sends the object literal below to \<^verbatim>\<open>.update(...)\<close>. A member whose
  value is \<^verbatim>\<open>undefined\<close> does not survive the request's JSON encoding; the backend assigns
  the remaining members, column by column, to every row that \<^verbatim>\<open>.eq('id', userId)\<close> keeps,
  and \<^verbatim>\<open>.select().single()\<close> reads the columns of those rows back.
\<close>

definition update_payload :: "row \<Rightarrow> row" where
  "update_payload updates =
     [(''first_name'', field updates ''firstName''),
      (''last_name'', field updates ''lastName''),
      (''phone'', field updates ''phone''),
      (''avatar'', field updates ''avatar'')]"

definition serialised :: "row \<Rightarrow> row" where
  "serialised obj = filter (\<lambda>kv. snd kv \<noteq> JUndefined) obj"

fun assign :: "string \<Rightarrow> jsval \<Rightarrow> row \<Rightarrow> row" where
  "assign k v [] = [(k, v)]"
| "assign k v (kv # r) = (if fst kv = k then (k, v) # r else kv # assign k v r)"

fun assign_all :: "row \<Rightarrow> row \<Rightarrow> row" where
  "assign_all [] r = r"
| "assign_all (kv # payload) r = assign_all payload (assign (fst kv) (snd kv) r)"

definition update_users :: "jsval \<Rightarrow> row \<Rightarrow> row list \<Rightarrow> row list" where
  "update_users v payload rows =
     map (\<lambda>r. if field r ''id'' = v then assign_all (serialised payload) r else r) rows"

definition updateProfile :: "backend \<Rightarrow> jsval \<Rightarrow> row \<Rightarrow> User option envelope \<times> backend" where
  "updateProfile be userId updates =
     (case users_fault be of
        Some e \<Rightarrow> (handleSupabaseError e, be)
      | None \<Rightarrow>
          (let be' = be \<lparr> users := update_users userId (update_payload updates) (users be) \<rparr>;
               q = single None (filter (\<lambda>r. field r ''id'' = userId) (users be'))
           in (case q_error q of
                 Some e \<Rightarrow> handleSupabaseError e
               | None \<Rightarrow>
                   (case q_data q of
                      None \<Rightarrow> handleSupabaseError (JsError ''Cannot read properties of null'')
                    | Some d \<Rightarrow> handleSupabaseSuccess (Some (mapDatabaseUserToUser d))),
               be')))"

section \<open>The session bridge (SupabaseAuthContext.tsx)\<close>

text \<open>
  The provider's two pieces of state, and what an operation does to the outside: the
  toasts it shows, the routes it navigates to and the calls it makes to the service.
\<close>

datatype toast = Toast_error string | Toast_success string

datatype call =
    Call_signIn string string
  | Call_signOut
  | Call_getCurrentUser
  | Call_updateProfile jsval row

record ctx =
  user :: "User option"
  isLoading :: bool
  toasts :: "toast list"
  navigated :: "string list"
  calls :: "call list"

text \<open>
  The service object the provider awaits. A call resolves to an envelope (\<open>Inr\<close>) or
  rejects with an error (\<open>Inl\<close>). \<open>supabaseAuth\<close> is the exported singleton over a
  backend: every method of the class catches what its body throws and returns an
  envelope, so its promises resolve.
\<close>

type_synonym 'a outcome = "js_error + 'a envelope"

record auth_service =
  svc_signIn :: "string \<Rightarrow> string \<Rightarrow> signIn_data option outcome"
  svc_signOut :: "unit option outcome"
  svc_getCurrentUser :: "User option outcome"
  svc_updateProfile :: "jsval \<Rightarrow> row \<Rightarrow> User option outcome"

definition supabaseAuth :: "backend \<Rightarrow> auth_service" where
  "supabaseAuth be =
     \<lparr> svc_signIn = (\<lambda>e p. Inr (signIn be e p)),
       svc_signOut = Inr (signOut be),
       svc_getCurrentUser = Inr (getCurrentUser be),
       svc_updateProfile = (\<lambda>userId updates. Inr (fst (updateProfile be userId updates))) \<rparr>"

section \<open>The role router (SupabaseAuthContext.tsx)\<close>

text \<open>
  \<^verbatim>\<open>getDashboardPath(userRole?)\<close> reads the provider's \<^verbatim>\<open>user\<close> of the render it was
  created in; that value is \<open>user_arg\<close> here. \<^verbatim>\<open>user?.role\<close> is \<^verbatim>\<open>undefined\<close>
  when there is no user.
\<close>

definition getDashboardPath :: "User option \<Rightarrow> jsval \<Rightarrow> string" where
  "getDashboardPath user_arg userRole =
     (let r = js_or userRole (case user_arg of None \<Rightarrow> JUndefined | Some u \<Rightarrow> role u)
      in if \<not> truthy r then ''/''
         else if r = JStr ''ADMIN'' then ''/admin''
         else if r = JStr ''MANAGER'' then ''/manager''
         else if r = JStr ''VENDOR'' then ''/vendor''
         else ''/customer'')"

definition redirectToDashboard :: "ctx \<Rightarrow> ctx" where
  "redirectToDashboard s =
     s \<lparr> navigated := navigated s @ [getDashboardPath (user s) JUndefined] \<rparr>"

section \<open>The operations of the bridge\<close>

text \<open>
  Each operation returns \<open>Inr ()\<close> when its promise resolves and \<open>Inl e\<close> when it
  rejects with \<open>e\<close>, next to the state it leaves. A \<^verbatim>\<open>catch\<close> block that logs and
  rethrows changes neither; the \<^verbatim>\<open>finally\<close> block runs on both ways out.
\<close>

definition login :: "auth_service \<Rightarrow> string \<Rightarrow> string \<Rightarrow> ctx \<Rightarrow> (js_error + unit) \<times> ctx" where
  "login svc email_arg password s =
     (let s1 = s \<lparr> isLoading := True, calls := calls s @ [Call_signIn email_arg password] \<rparr> in
      case svc_signIn svc email_arg password of
        Inl err \<Rightarrow> (Inl err, s1 \<lparr> isLoading := False \<rparr>)
      | Inr (Failure errorMessage) \<Rightarrow>
          (Inl (JsError errorMessage),
           s1 \<lparr> toasts := toasts s1 @ [Toast_error errorMessage], isLoading := False \<rparr>)
      | Inr (Success None) \<Rightarrow> (Inr (), s1 \<lparr> isLoading := False \<rparr>)
      | Inr (Success (Some d)) \<Rightarrow>
          (Inr (),
           s1 \<lparr> user := Some (data_user d),
                toasts := toasts s1 @ [Toast_success ''Login successful''],
                navigated := navigated s1 @ [getDashboardPath (user s) (role (data_user d))],
                isLoading := False \<rparr>))"

definition logout :: "auth_service \<Rightarrow> ctx \<Rightarrow> (js_error + unit) \<times> ctx" where
  "logout svc s =
     (let s1 = s \<lparr> isLoading := True, calls := calls s @ [Call_signOut] \<rparr> in
      case svc_signOut svc of
        Inl err \<Rightarrow> (Inl err, s1 \<lparr> isLoading := False \<rparr>)
      | Inr (Failure errorMessage) \<Rightarrow>
          (Inl (JsError errorMessage),
           s1 \<lparr> toasts := toasts s1 @ [Toast_error errorMessage], isLoading := False \<rparr>)
      | Inr (Success d) \<Rightarrow>
          (Inr (),
           s1 \<lparr> user := None,
                toasts := toasts s1 @ [Toast_success ''Logged out successfully''],
                navigated := navigated s1 @ [''/''],
                isLoading := False \<rparr>))"

definition refreshToken :: "auth_service \<Rightarrow> ctx \<Rightarrow> (js_error + unit) \<times> ctx" where
  "refreshToken svc s =
     (let s1 = s \<lparr> calls := calls s @ [Call_getCurrentUser] \<rparr> in
      case svc_getCurrentUser svc of
        Inl err \<Rightarrow> (Inl err, s1 \<lparr> user := None \<rparr>)
      | Inr (Success (Some u)) \<Rightarrow> (Inr (), s1 \<lparr> user := Some u \<rparr>)
      | Inr _ \<Rightarrow> (Inr (), s1 \<lparr> user := None \<rparr>))"

definition updateProfile_provider :: "auth_service \<Rightarrow> row \<Rightarrow> ctx \<Rightarrow> (js_error + unit) \<times> ctx" where
  "updateProfile_provider svc updates s =
     (case user s of
        None \<Rightarrow> (Inl (JsError ''No user logged in''), s)
      | Some u \<Rightarrow>
          (let s1 = s \<lparr> isLoading := True,
                         calls := calls s @ [Call_updateProfile (id_user u) updates] \<rparr> in
           case svc_updateProfile svc (id_user u) updates of
             Inl err \<Rightarrow> (Inl err, s1 \<lparr> isLoading := False \<rparr>)
           | Inr (Failure errorMessage) \<Rightarrow>
               (Inl (JsError errorMessage),
                s1 \<lparr> toasts := toasts s1 @ [Toast_error errorMessage], isLoading := False \<rparr>)
           | Inr (Success None) \<Rightarrow> (Inr (), s1 \<lparr> isLoading := False \<rparr>)
           | Inr (Success (Some u')) \<Rightarrow>
               (Inr (),
                s1 \<lparr> user := Some u',
                     toasts := toasts s1 @ [Toast_success ''Profile updated successfully''],
                     isLoading := False \<rparr>)))"

text \<open>
  The listener given to \<^verbatim>\<open>supabase.auth.onAuthStateChange\<close>. It has no \<^verbatim>\<open>try\<close>: were
  the fetch to reject, the handler would stop there, before \<^verbatim>\<open>setIsLoading(false)\<close>.
\<close>

definition fetch_and_install :: "auth_service \<Rightarrow> ctx \<Rightarrow> (js_error + unit) \<times> ctx" where
  "fetch_and_install svc s =
     (let s1 = s \<lparr> calls := calls s @ [Call_getCurrentUser] \<rparr> in
      case svc_getCurrentUser svc of
        Inl err \<Rightarrow> (Inl err, s1)
      | Inr (Success (Some u)) \<Rightarrow> (Inr (), s1 \<lparr> user := Some u, isLoading := False \<rparr>)
      | Inr _ \<Rightarrow> (Inr (), s1 \<lparr> isLoading := False \<rparr>))"

definition onAuthStateChange_handler ::
    "auth_service \<Rightarrow> string \<Rightarrow> session option \<Rightarrow> ctx \<Rightarrow> (js_error + unit) \<times> ctx" where
  "onAuthStateChange_handler svc event session_arg s =
     (if event = ''SIGNED_IN'' \<and> session_arg \<noteq> None then fetch_and_install svc s
      else if event = ''SIGNED_OUT'' then (Inr (), s \<lparr> user := None, isLoading := False \<rparr>)
      else if event = ''TOKEN_REFRESHED'' \<and> session_arg \<noteq> None then fetch_and_install svc s
      else (Inr (), s \<lparr> isLoading := False \<rparr>))"

section \<open>Concrete inputs\<close>

text \<open>
  The record of the specification's end-to-end example, a backend that holds it, and the
  provider's state before and after that user has signed in.
\<close>

definition ana_row :: row where
  "ana_row =
     [(''id'', JStr ''u1''), (''email'', JStr ''a@b.com''),
      (''first_name'', JStr ''Ana''), (''last_name'', JStr ''Lee''),
      (''role'', JStr ''VENDOR''), (''status'', JStr ''ACTIVE'')]"

definition demo_backend :: backend where
  "demo_backend =
     \<lparr> signInWithPassword =
         (\<lambda>e p. if e = ''a@b.com'' \<and> p = ''secret''
                then \<lparr> si_user = Some \<lparr> auth_id = ''u1'' \<rparr>,
                       si_session = Some (Session ''t1''), si_error = None \<rparr>
                else \<lparr> si_user = None, si_session = None,
                       si_error = Some (JsError ''Invalid login credentials'') \<rparr>),
       getUser = \<lparr> gu_user = Some \<lparr> auth_id = ''u1'' \<rparr>, gu_error = None \<rparr>,
       auth_signOut = None,
       users = [ana_row],
       vendors_embed = (\<lambda>v. JNull),
       users_fault = None \<rparr>"

definition signOut_failing_backend :: backend where
  "signOut_failing_backend =
     demo_backend \<lparr> auth_signOut := Some (JsError ''Network request failed'') \<rparr>"

definition no_profile_backend :: backend where
  "no_profile_backend = demo_backend \<lparr> users := [] \<rparr>"

text \<open>
  Two answers of \<^verbatim>\<open>supabase.auth.getUser()\<close> that name no user: one with no error
  beside it, and the one the auth client gives when it holds no session, where the missing
  user comes with an error.
\<close>

definition no_user_backend :: backend where
  "no_user_backend = demo_backend \<lparr> getUser := \<lparr> gu_user = None, gu_error = None \<rparr> \<rparr>"

definition session_missing_backend :: backend where
  "session_missing_backend =
     demo_backend \<lparr> getUser := \<lparr> gu_user = None,
                                 gu_error = Some (JsError ''Auth session missing!'') \<rparr> \<rparr>"

definition initial_ctx :: ctx where
  "initial_ctx =
     \<lparr> user = None, isLoading = True, toasts = [], navigated = [], calls = [] \<rparr>"

definition signed_in_ctx :: ctx where
  "signed_in_ctx =
     \<lparr> user = Some (mapDatabaseUserToUser ana_row), isLoading = False,
       toasts = [], navigated = [], calls = [] \<rparr>"

text \<open>A service whose every promise rejects.\<close>

definition rejecting_service :: auth_service where
  "rejecting_service =
     \<lparr> svc_signIn = (\<lambda>e p. Inl (JsError ''Network request failed'')),
       svc_signOut = Inl (JsError ''Network request failed''),
       svc_getCurrentUser = Inl (JsError ''Network request failed''),
       svc_updateProfile = (\<lambda>userId updates. Inl (JsError ''Network request failed'')) \<rparr>"

text \<open>
  The row that \<^verbatim>\<open>handleOAuthCallback\<close> inserts for an account without a full name
  (\<^verbatim>\<open>first_name: ... || 'User'\<close>, \<^verbatim>\<open>last_name: ... || ''\<close>), and the same record with
  the two names under their camelCase keys.
\<close>

definition oauth_row_snake :: row where
  "oauth_row_snake =
     [(''id'', JStr ''u2''), (''email'', JStr ''c@d.com''),
      (''first_name'', JStr ''User''), (''last_name'', JStr ''''),
      (''role'', JStr ''CUSTOMER''), (''status'', JStr ''ACTIVE'')]"

definition oauth_row_camel :: row where
  "oauth_row_camel =
     [(''id'', JStr ''u2''), (''email'', JStr ''c@d.com''),
      (''firstName'', JStr ''User''), (''lastName'', JStr ''''),
      (''role'', JStr ''CUSTOMER''), (''status'', JStr ''ACTIVE'')]"

text \<open>An update that also names fields the profile form does not offer.\<close>

definition overreaching_updates :: row where
  "overreaching_updates =
     [(''firstName'', JStr ''Anna''), (''id'', JStr ''u9''), (''email'', JStr ''x@y.com''),
      (''role'', JStr ''ADMIN''), (''status'', JStr ''SUSPENDED''),
      (''vendor'', JObj [(''id'', JStr ''v9'')])]"

section \<open>The profile mapper\<close>

text \<open>
  Away from falsy names the two naming conventions do give one output: when both names
  are truthy (non-empty strings, in a row of the table) and the record holds each name
  under one convention only, the mapper reads the same two values either way, and the
  display name is the first name, one space, the last name.
\<close>

lemma mapDatabaseUserToUser_conventions_agree:
  assumes "map_of r ''first_name'' = None" and "map_of r ''last_name'' = None"
    and "map_of r ''firstName'' = None" and "map_of r ''lastName'' = None"
    and "truthy x" and "truthy y"
  shows "mapDatabaseUserToUser ((''first_name'', x) # (''last_name'', y) # r)
           = mapDatabaseUserToUser ((''firstName'', x) # (''lastName'', y) # r)"
    and "name (mapDatabaseUserToUser ((''first_name'', x) # (''last_name'', y) # r))
           = ToString x @ '' '' @ ToString y"
  using assms by (simp_all add: mapDatabaseUserToUser_def field_def js_or_def)

text \<open>
  C5. Two records that differ only in the convention of their name keys should map to the
  same user. They do not when a name is the empty string: \<^verbatim>\<open>'' || dbUser.lastName\<close>
  falls through to the missing camelCase key. The record with \<^verbatim>\<open>last_name: ''\<close> maps
  to a user whose last name is \<^verbatim>\<open>undefined\<close> and whose display name is
  \<^verbatim>\<open>User undefined\<close>; its camelCase twin maps to the last name \<^verbatim>\<open>''\<close> and the
  display name \<^verbatim>\<open>User\<close> followed by a space; the two outputs differ.
\<close>

theorem mapDatabaseUserToUser_empty_last_name:
  "lastName (mapDatabaseUserToUser oauth_row_snake) = JUndefined
   \<and> name (mapDatabaseUserToUser oauth_row_snake) = ''User undefined''
   \<and> lastName (mapDatabaseUserToUser oauth_row_camel) = JStr ''''
   \<and> name (mapDatabaseUserToUser oauth_row_camel) = ''User ''
   \<and> mapDatabaseUserToUser oauth_row_snake \<noteq> mapDatabaseUserToUser oauth_row_camel"
  by (simp add: mapDatabaseUserToUser_def oauth_row_snake_def oauth_row_camel_def
        field_def js_or_def)

section \<open>The role router\<close>

text \<open>
  C2. Whatever user is installed, \<^verbatim>\<open>getDashboardPath\<close> sends the role ADMIN to
  \<^verbatim>\<open>/admin\<close>, MANAGER to \<^verbatim>\<open>/manager\<close>, VENDOR to \<^verbatim>\<open>/vendor\<close>, and CUSTOMER and every
  other present role string to \<^verbatim>\<open>/customer\<close>; with no user to fall back on, an absent role
  goes to \<^verbatim>\<open>/\<close>. A role is present when the code's own test \<^verbatim>\<open>!role\<close> fails, so the
  empty string counts as absent, like \<^verbatim>\<open>undefined\<close> and \<^verbatim>\<open>null\<close>. \<^verbatim>\<open>redirectToDashboard\<close>
  changes nothing but the route, and navigates to the destination of the installed user's
  role, or to \<^verbatim>\<open>/\<close> when no user is installed.
\<close>

theorem getDashboardPath_role_table:
  "getDashboardPath u (JStr ''ADMIN'') = ''/admin''
   \<and> getDashboardPath u (JStr ''MANAGER'') = ''/manager''
   \<and> getDashboardPath u (JStr ''VENDOR'') = ''/vendor''
   \<and> getDashboardPath u (JStr ''CUSTOMER'') = ''/customer''
   \<and> (r \<noteq> [] \<and> r \<noteq> ''ADMIN'' \<and> r \<noteq> ''MANAGER'' \<and> r \<noteq> ''VENDOR''
        \<longrightarrow> getDashboardPath u (JStr r) = ''/customer'')
   \<and> getDashboardPath None JUndefined = ''/''
   \<and> getDashboardPath None JNull = ''/''
   \<and> getDashboardPath None (JStr []) = ''/''
   \<and> redirectToDashboard s =
       s \<lparr> navigated := navigated s @
              [case user s of None \<Rightarrow> ''/'' | Some x \<Rightarrow> getDashboardPath None (role x)] \<rparr>"
  by (auto simp add: getDashboardPath_def js_or_def redirectToDashboard_def Let_def
      split: option.splits)

theorem getDashboardPath_role_table_witness:
  "getDashboardPath None (JStr ''GUEST'') = ''/customer''
   \<and> navigated (redirectToDashboard signed_in_ctx) = [''/vendor'']"
proof -
  have h: "''GUEST'' \<noteq> [] \<and> ''GUEST'' \<noteq> ''ADMIN'' \<and> ''GUEST'' \<noteq> ''MANAGER''
           \<and> ''GUEST'' \<noteq> ''VENDOR''"
    by simp
  have v: "role (mapDatabaseUserToUser ana_row) = JStr ''VENDOR''"
    by (simp add: mapDatabaseUserToUser_def ana_row_def field_def)
  have n: "navigated signed_in_ctx = [] \<and> user signed_in_ctx = Some (mapDatabaseUserToUser ana_row)"
    by (simp add: signed_in_ctx_def)
  from getDashboardPath_role_table [of None "''GUEST''" signed_in_ctx] h v n
  show ?thesis by simp
qed

section \<open>The operations of the bridge: what they leave behind\<close>

text \<open>
  C1 (amended). For every prior state and every outcome of the sign-out request, the
  loading flag is false after \<^verbatim>\<open>logout\<close>. \<^verbatim>\<open>logout\<close> returns exactly when the service
  reports success, and then the local user is absent; when the sign-out fails or the
  request rejects, \<^verbatim>\<open>logout\<close> raises and the local user is the one that was installed
  before.
\<close>

theorem logout_clears_user_on_success:
  "isLoading (snd (logout svc s)) = False
   \<and> (fst (logout svc s) = Inr () \<longleftrightarrow> (\<exists>d. svc_signOut svc = Inr (Success d)))
   \<and> (fst (logout svc s) = Inr () \<longrightarrow> user (snd (logout svc s)) = None)
   \<and> (fst (logout svc s) \<noteq> Inr () \<longrightarrow> user (snd (logout svc s)) = user s)"
  by (auto simp add: logout_def Let_def split: sum.splits envelope.splits)

theorem logout_clears_user_on_success_witness:
  "fst (logout (supabaseAuth demo_backend) signed_in_ctx) = Inr ()
   \<and> user (snd (logout (supabaseAuth demo_backend) signed_in_ctx)) = None
   \<and> isLoading (snd (logout (supabaseAuth demo_backend) signed_in_ctx)) = False
   \<and> fst (logout rejecting_service signed_in_ctx) \<noteq> Inr ()
   \<and> user (snd (logout rejecting_service signed_in_ctx)) = user signed_in_ctx
   \<and> isLoading (snd (logout rejecting_service signed_in_ctx)) = False"
proof -
  have ok: "fst (logout (supabaseAuth demo_backend) signed_in_ctx) = Inr ()"
    by (simp add: logout_def supabaseAuth_def signOut_def demo_backend_def
          handleSupabaseSuccess_def)
  have ko: "fst (logout rejecting_service signed_in_ctx) \<noteq> Inr ()"
    by (simp add: logout_def rejecting_service_def)
  from logout_clears_user_on_success [of "supabaseAuth demo_backend" signed_in_ctx]
       logout_clears_user_on_success [of rejecting_service signed_in_ctx] ok ko
  show ?thesis by simp
qed

text \<open>
  The claim as first stated fails where the backend refuses the sign-out: \<^verbatim>\<open>logout\<close>
  raises the backend's message and the user stays installed.
\<close>

theorem logout_failed_signOut_keeps_user:
  "fst (logout (supabaseAuth signOut_failing_backend) signed_in_ctx)
     = Inl (JsError ''Network request failed'')
   \<and> user (snd (logout (supabaseAuth signOut_failing_backend) signed_in_ctx))
     = Some (mapDatabaseUserToUser ana_row)
   \<and> user (snd (logout (supabaseAuth signOut_failing_backend) signed_in_ctx)) \<noteq> None"
  by (simp add: logout_def supabaseAuth_def signOut_def signOut_failing_backend_def
        demo_backend_def signed_in_ctx_def handleSupabaseError_def)

text \<open>
  C3. Called while no user is installed, \<^verbatim>\<open>updateProfile\<close> raises the error
  \<^verbatim>\<open>No user logged in\<close> and leaves the whole state as it was: the user, the loading flag,
  and the list of calls made to the service, so no request has gone out. The raise comes
  before the first \<^verbatim>\<open>await\<close>, which is all that "synchronously" can mean here.
\<close>

theorem updateProfile_provider_no_user:
  "user s = None \<Longrightarrow>
     updateProfile_provider svc updates s = (Inl (JsError ''No user logged in''), s)"
  by (simp add: updateProfile_provider_def)

theorem updateProfile_provider_no_user_witness:
  "user initial_ctx = None
   \<and> updateProfile_provider (supabaseAuth demo_backend) overreaching_updates initial_ctx
       = (Inl (JsError ''No user logged in''), initial_ctx)"
proof -
  have h: "user initial_ctx = None" by (simp add: initial_ctx_def)
  from h updateProfile_provider_no_user [OF h] show ?thesis by simp
qed

lemma signIn_Success:
  assumes "signIn be e p = Success x"
  shows "\<exists>au sess userData.
           si_user (signInWithPassword be e p) = Some au
         \<and> si_session (signInWithPassword be e p) = Some sess
         \<and> select_users_with_vendor be (JStr (auth_id au)) = [userData]
         \<and> x = Some \<lparr> data_user = mapDatabaseUserToUser userData, data_session = sess \<rparr>"
  using assms
  by (auto simp add: signIn_def Let_def maybeSingle_def handleSupabaseError_def
        handleSupabaseSuccess_def
      split: option.splits list.splits)

lemma login_isLoading: "isLoading (snd (login svc e p s)) = False"
  by (simp add: login_def Let_def split: sum.splits envelope.splits option.splits)

lemma login_Success:
  "svc_signIn svc e p = Inr (Success (Some d)) \<Longrightarrow>
     fst (login svc e p s) = Inr () \<and> user (snd (login svc e p s)) = Some (data_user d)"
  by (simp add: login_def Let_def)

text \<open>
  C4. Whatever the service answers, and also when its promise rejects, the loading flag
  is false after \<^verbatim>\<open>login\<close>. When the sign-in of the service succeeds, its payload is the
  mapped image of the one row of \<^verbatim>\<open>users\<close> (with its vendor) that carries the
  authenticated id; \<^verbatim>\<open>login\<close> then returns, the local user is exactly that mapped
  profile, and the loading flag is false.
\<close>

theorem login_installs_mapped_profile:
  "isLoading (snd (login svc e p s)) = False
   \<and> (signIn be e p = Success x \<longrightarrow>
        (\<exists>au sess userData.
            si_user (signInWithPassword be e p) = Some au
          \<and> select_users_with_vendor be (JStr (auth_id au)) = [userData]
          \<and> x = Some \<lparr> data_user = mapDatabaseUserToUser userData, data_session = sess \<rparr>
          \<and> fst (login (supabaseAuth be) e p s) = Inr ()
          \<and> user (snd (login (supabaseAuth be) e p s)) = Some (mapDatabaseUserToUser userData)
          \<and> isLoading (snd (login (supabaseAuth be) e p s)) = False))"
proof (intro conjI impI)
  show "isLoading (snd (login svc e p s)) = False" by (rule login_isLoading)
next
  assume a: "signIn be e p = Success x"
  from signIn_Success [OF a] obtain au sess userData where
    h: "si_user (signInWithPassword be e p) = Some au"
       "select_users_with_vendor be (JStr (auth_id au)) = [userData]"
       "x = Some \<lparr> data_user = mapDatabaseUserToUser userData, data_session = sess \<rparr>"
    by blast
  have "svc_signIn (supabaseAuth be) e p
          = Inr (Success (Some \<lparr> data_user = mapDatabaseUserToUser userData,
                                 data_session = sess \<rparr>))"
    using a h(3) by (simp add: supabaseAuth_def)
  from login_Success [OF this] h login_isLoading
  show "\<exists>au sess userData.
            si_user (signInWithPassword be e p) = Some au
          \<and> select_users_with_vendor be (JStr (auth_id au)) = [userData]
          \<and> x = Some \<lparr> data_user = mapDatabaseUserToUser userData, data_session = sess \<rparr>
          \<and> fst (login (supabaseAuth be) e p s) = Inr ()
          \<and> user (snd (login (supabaseAuth be) e p s)) = Some (mapDatabaseUserToUser userData)
          \<and> isLoading (snd (login (supabaseAuth be) e p s)) = False"
    by auto
qed

theorem login_installs_mapped_profile_witness:
  "signIn demo_backend ''a@b.com'' ''secret''
     = Success (Some \<lparr> data_user = mapDatabaseUserToUser ((''vendor'', JNull) # ana_row),
                       data_session = Session ''t1'' \<rparr>)
   \<and> user (snd (login (supabaseAuth demo_backend) ''a@b.com'' ''secret'' initial_ctx))
       = Some (mapDatabaseUserToUser ((''vendor'', JNull) # ana_row))
   \<and> isLoading (snd (login (supabaseAuth demo_backend) ''a@b.com'' ''secret'' initial_ctx)) = False
   \<and> isLoading (snd (login rejecting_service ''a@b.com'' ''secret'' initial_ctx)) = False"
proof -
  have sel: "select_users_with_vendor demo_backend (JStr ''u1'') = [(''vendor'', JNull) # ana_row]"
    by (simp add: select_users_with_vendor_def demo_backend_def ana_row_def field_def)
  have au: "si_user (signInWithPassword demo_backend ''a@b.com'' ''secret'')
              = Some \<lparr> auth_id = ''u1'' \<rparr>"
    by (simp add: demo_backend_def)
  have h: "signIn demo_backend ''a@b.com'' ''secret''
     = Success (Some \<lparr> data_user = mapDatabaseUserToUser ((''vendor'', JNull) # ana_row),
                       data_session = Session ''t1'' \<rparr>)"
    using sel by (simp add: signIn_def maybeSingle_def handleSupabaseSuccess_def demo_backend_def)
  from login_installs_mapped_profile
         [of rejecting_service "''a@b.com''" "''secret''" initial_ctx demo_backend
             "Some \<lparr> data_user = mapDatabaseUserToUser ((''vendor'', JNull) # ana_row),
                     data_session = Session ''t1'' \<rparr>"]
       h sel au
  show ?thesis by auto
qed

text \<open>
  C10. After \<^verbatim>\<open>refreshToken\<close> the local user is the fetched user when the service
  answers with a success that carries one, and absent in every other outcome. In
  particular, when the fetch rejects, \<^verbatim>\<open>refreshToken\<close> rejects with the same error and
  the user it leaves is absent: no stale user survives a failed refresh.
\<close>

theorem refreshToken_final_user:
  "(svc_getCurrentUser svc = Inl e \<longrightarrow>
      fst (refreshToken svc s) = Inl e \<and> user (snd (refreshToken svc s)) = None)
   \<and> (svc_getCurrentUser svc = Inr (Success (Some u)) \<longrightarrow>
      fst (refreshToken svc s) = Inr () \<and> user (snd (refreshToken svc s)) = Some u)
   \<and> ((\<forall>u'. svc_getCurrentUser svc \<noteq> Inr (Success (Some u'))) \<longrightarrow>
      user (snd (refreshToken svc s)) = None)"
  by (auto simp add: refreshToken_def Let_def split: sum.splits envelope.splits option.splits)

theorem refreshToken_final_user_witness:
  "user signed_in_ctx \<noteq> None
   \<and> fst (refreshToken rejecting_service signed_in_ctx) = Inl (JsError ''Network request failed'')
   \<and> user (snd (refreshToken rejecting_service signed_in_ctx)) = None
   \<and> user (snd (refreshToken (supabaseAuth demo_backend) initial_ctx))
       = Some (mapDatabaseUserToUser ((''vendor'', JNull) # ana_row))
   \<and> user (snd (refreshToken (supabaseAuth no_user_backend) signed_in_ctx)) = None"
proof -
  have r: "svc_getCurrentUser rejecting_service = Inl (JsError ''Network request failed'')"
    by (simp add: rejecting_service_def)
  have sel: "select_users_with_vendor demo_backend (JStr ''u1'') = [(''vendor'', JNull) # ana_row]"
    by (simp add: select_users_with_vendor_def demo_backend_def ana_row_def field_def)
  have g: "svc_getCurrentUser (supabaseAuth demo_backend)
             = Inr (Success (Some (mapDatabaseUserToUser ((''vendor'', JNull) # ana_row))))"
    using sel
    by (simp add: supabaseAuth_def getCurrentUser_def maybeSingle_def handleSupabaseSuccess_def
          demo_backend_def)
  have n: "\<forall>u'. svc_getCurrentUser (supabaseAuth no_user_backend) \<noteq> Inr (Success (Some u'))"
    by (simp add: supabaseAuth_def getCurrentUser_def handleSupabaseSuccess_def
          no_user_backend_def demo_backend_def)
  have i: "user signed_in_ctx \<noteq> None" by (simp add: signed_in_ctx_def)
  from refreshToken_final_user
         [of rejecting_service "JsError ''Network request failed''" signed_in_ctx
             "mapDatabaseUserToUser ana_row"]
       refreshToken_final_user
         [of "supabaseAuth demo_backend" "JsError ''Network request failed''" initial_ctx
             "mapDatabaseUserToUser ((''vendor'', JNull) # ana_row)"]
       refreshToken_final_user
         [of "supabaseAuth no_user_backend" "JsError ''Network request failed''" signed_in_ctx
             "mapDatabaseUserToUser ana_row"]
       r g n i
  show ?thesis by simp
qed

lemma fetch_and_install_supabaseAuth:
  "fetch_and_install (supabaseAuth be) s =
     (Inr (), s \<lparr> calls := calls s @ [Call_getCurrentUser],
                  user := (case getCurrentUser be of Success (Some u) \<Rightarrow> Some u | _ \<Rightarrow> user s),
                  isLoading := False \<rparr>)"
  by (simp add: fetch_and_install_def supabaseAuth_def Let_def
      split: envelope.splits option.splits)

text \<open>
  C6. The listener, run over the service of the application, handles a push event so:
  on SIGNED_IN or TOKEN_REFRESHED with a session it asks the service once for the current
  user and installs the user that comes back (when none comes back the local user stays);
  on SIGNED_OUT it clears the local user without asking; on anything else, and on the two
  events above when they come without a session, it leaves the user alone and asks
  nothing. Whatever the event, the handler completes and the loading flag is false
  afterwards.
\<close>

theorem onAuthStateChange_handler_table:
  "fst (onAuthStateChange_handler (supabaseAuth be) ev sess s) = Inr ()
   \<and> isLoading (snd (onAuthStateChange_handler (supabaseAuth be) ev sess s)) = False
   \<and> ((ev = ''SIGNED_IN'' \<or> ev = ''TOKEN_REFRESHED'') \<and> sess \<noteq> None \<longrightarrow>
        calls (snd (onAuthStateChange_handler (supabaseAuth be) ev sess s))
          = calls s @ [Call_getCurrentUser]
        \<and> (\<forall>u. getCurrentUser be = Success (Some u) \<longrightarrow>
              user (snd (onAuthStateChange_handler (supabaseAuth be) ev sess s)) = Some u)
        \<and> ((\<forall>u. getCurrentUser be \<noteq> Success (Some u)) \<longrightarrow>
              user (snd (onAuthStateChange_handler (supabaseAuth be) ev sess s)) = user s))
   \<and> (ev = ''SIGNED_OUT'' \<longrightarrow>
        user (snd (onAuthStateChange_handler (supabaseAuth be) ev sess s)) = None
        \<and> calls (snd (onAuthStateChange_handler (supabaseAuth be) ev sess s)) = calls s)
   \<and> (ev \<noteq> ''SIGNED_OUT'' \<and> \<not> ((ev = ''SIGNED_IN'' \<or> ev = ''TOKEN_REFRESHED'') \<and> sess \<noteq> None)
        \<longrightarrow>
        user (snd (onAuthStateChange_handler (supabaseAuth be) ev sess s)) = user s
        \<and> calls (snd (onAuthStateChange_handler (supabaseAuth be) ev sess s)) = calls s)"
  by (auto simp add: onAuthStateChange_handler_def fetch_and_install_supabaseAuth
      split: envelope.splits option.splits)

theorem onAuthStateChange_handler_table_witness:
  "user (snd (onAuthStateChange_handler (supabaseAuth demo_backend) ''SIGNED_IN''
                (Some (Session ''t1'')) initial_ctx))
     = Some (mapDatabaseUserToUser ((''vendor'', JNull) # ana_row))
   \<and> isLoading (snd (onAuthStateChange_handler (supabaseAuth demo_backend) ''SIGNED_IN''
                (Some (Session ''t1'')) initial_ctx)) = False
   \<and> user (snd (onAuthStateChange_handler (supabaseAuth demo_backend) ''SIGNED_OUT''
                None signed_in_ctx)) = None
   \<and> user (snd (onAuthStateChange_handler (supabaseAuth demo_backend) ''USER_UPDATED''
                (Some (Session ''t1'')) signed_in_ctx)) = user signed_in_ctx"
proof -
  have sel: "select_users_with_vendor demo_backend (JStr ''u1'') = [(''vendor'', JNull) # ana_row]"
    by (simp add: select_users_with_vendor_def demo_backend_def ana_row_def field_def)
  have g: "getCurrentUser demo_backend
             = Success (Some (mapDatabaseUserToUser ((''vendor'', JNull) # ana_row)))"
    using sel
    by (simp add: getCurrentUser_def maybeSingle_def handleSupabaseSuccess_def demo_backend_def)
  have e: "''USER_UPDATED'' \<noteq> ''SIGNED_OUT'' \<and> ''USER_UPDATED'' \<noteq> ''SIGNED_IN''
           \<and> ''USER_UPDATED'' \<noteq> ''TOKEN_REFRESHED''"
    by simp
  from onAuthStateChange_handler_table
         [of demo_backend "''SIGNED_IN''" "Some (Session ''t1'')" initial_ctx]
       onAuthStateChange_handler_table
         [of demo_backend "''SIGNED_OUT''" None signed_in_ctx]
       onAuthStateChange_handler_table
         [of demo_backend "''USER_UPDATED''" "Some (Session ''t1'')" signed_in_ctx]
       g e
  show ?thesis by simp
qed

section \<open>The service: missing records\<close>

text \<open>
  C7. When the provider accepts the credentials (no error, a user and a session) and the
  request to the table meets no fault, but no row of \<^verbatim>\<open>users\<close> carries the authenticated
  id, \<^verbatim>\<open>signIn\<close> returns the failure envelope with the message
  \<^verbatim>\<open>User profile not found\<close>: the empty answer of \<^verbatim>\<open>.maybeSingle()\<close> is not an error of
  the query, and the service words the failure itself.
\<close>

theorem signIn_missing_profile_not_found:
  assumes "si_error (signInWithPassword be e p) = None"
    and "si_user (signInWithPassword be e p) = Some au"
    and "si_session (signInWithPassword be e p) = Some sess"
    and "users_fault be = None"
    and "\<forall>r \<in> set (users be). field r ''id'' \<noteq> JStr (auth_id au)"
  shows "signIn be e p = Failure ''User profile not found''"
proof -
  from assms(5) have "select_users_with_vendor be (JStr (auth_id au)) = []"
    by (simp add: select_users_with_vendor_def filter_empty_conv)
  with assms(1-4) show ?thesis
    by (simp add: signIn_def maybeSingle_def handleSupabaseError_def)
qed

theorem signIn_missing_profile_not_found_witness:
  "si_error (signInWithPassword no_profile_backend ''a@b.com'' ''secret'') = None
   \<and> si_user (signInWithPassword no_profile_backend ''a@b.com'' ''secret'')
       = Some \<lparr> auth_id = ''u1'' \<rparr>
   \<and> users no_profile_backend = []
   \<and> signIn no_profile_backend ''a@b.com'' ''secret'' = Failure ''User profile not found''"
proof -
  have h1: "si_error (signInWithPassword no_profile_backend ''a@b.com'' ''secret'') = None"
    and h2: "si_user (signInWithPassword no_profile_backend ''a@b.com'' ''secret'')
               = Some \<lparr> auth_id = ''u1'' \<rparr>"
    and h3: "si_session (signInWithPassword no_profile_backend ''a@b.com'' ''secret'')
               = Some (Session ''t1'')"
    and h4: "users_fault no_profile_backend = None"
    and h5: "users no_profile_backend = []"
    by (simp_all add: no_profile_backend_def demo_backend_def)
  from h5 have h6: "\<forall>r \<in> set (users no_profile_backend). field r ''id'' \<noteq> JStr (auth_id \<lparr> auth_id = ''u1'' \<rparr>)"
    by simp
  from signIn_missing_profile_not_found [OF h1 h2 h3 h4 h6] h1 h2 h5
  show ?thesis by simp
qed

text \<open>
  C8 (amended). \<^verbatim>\<open>getCurrentUser\<close> tests the provider's error first: when the answer
  of \<^verbatim>\<open>getUser\<close> carries an error, the result is the failure envelope with that error's
  message, whether or not a user is named. When the answer carries no error and no user,
  and likewise when it carries no error and names a user but no row of \<^verbatim>\<open>users\<close> has
  that id (the request meeting no fault), the result is the success envelope whose payload
  is \<^verbatim>\<open>null\<close>.
\<close>

theorem getCurrentUser_null_payload_without_error:
  "(gu_error (getUser be) = Some e \<longrightarrow> getCurrentUser be = Failure (message e))
   \<and> (gu_error (getUser be) = None \<and> gu_user (getUser be) = None \<longrightarrow>
      getCurrentUser be = Success None)
   \<and> (gu_error (getUser be) = None \<and> gu_user (getUser be) = Some au \<and> users_fault be = None
       \<and> (\<forall>r \<in> set (users be). field r ''id'' \<noteq> JStr (auth_id au)) \<longrightarrow>
      getCurrentUser be = Success None)"
  by (auto simp add: getCurrentUser_def handleSupabaseSuccess_def handleSupabaseError_def
        maybeSingle_def select_users_with_vendor_def Let_def filter_empty_conv
      split: option.splits list.splits)

theorem getCurrentUser_null_payload_without_error_witness:
  "gu_user (getUser no_user_backend) = None
   \<and> getCurrentUser no_user_backend = Success None
   \<and> gu_user (getUser no_profile_backend) = Some \<lparr> auth_id = ''u1'' \<rparr>
   \<and> users no_profile_backend = []
   \<and> getCurrentUser no_profile_backend = Success None
   \<and> gu_error (getUser session_missing_backend) = Some (JsError ''Auth session missing!'')
   \<and> getCurrentUser session_missing_backend = Failure ''Auth session missing!''"
proof -
  have a: "gu_error (getUser no_user_backend) = None \<and> gu_user (getUser no_user_backend) = None"
    by (simp add: no_user_backend_def demo_backend_def)
  have b: "gu_error (getUser no_profile_backend) = None
           \<and> gu_user (getUser no_profile_backend) = Some \<lparr> auth_id = ''u1'' \<rparr>
           \<and> users_fault no_profile_backend = None \<and> users no_profile_backend = []"
    by (simp add: no_profile_backend_def demo_backend_def)
  have c: "gu_error (getUser session_missing_backend) = Some (JsError ''Auth session missing!'')"
    by (simp add: session_missing_backend_def demo_backend_def)
  from getCurrentUser_null_payload_without_error
         [of no_user_backend "JsError ''Auth session missing!''" "\<lparr> auth_id = ''u1'' \<rparr>"]
       getCurrentUser_null_payload_without_error
         [of no_profile_backend "JsError ''Auth session missing!''" "\<lparr> auth_id = ''u1'' \<rparr>"]
       getCurrentUser_null_payload_without_error
         [of session_missing_backend "JsError ''Auth session missing!''" "\<lparr> auth_id = ''u1'' \<rparr>"]
       a b c
  show ?thesis by simp
qed

text \<open>
  The claim as first stated fails where the provider names no user and reports an error,
  which is its answer when no session is stored: \<^verbatim>\<open>getCurrentUser\<close> returns a failure
  envelope, not the success envelope with the payload \<^verbatim>\<open>null\<close>.
\<close>

theorem getCurrentUser_session_missing_fails:
  "gu_user (getUser session_missing_backend) = None
   \<and> getCurrentUser session_missing_backend = Failure ''Auth session missing!''
   \<and> getCurrentUser session_missing_backend \<noteq> Success None"
  by (simp add: getCurrentUser_def session_missing_backend_def demo_backend_def
        handleSupabaseError_def)

section \<open>The service: what a profile update writes\<close>

lemma field_assign: "field (assign k v r) k' = (if k' = k then v else field r k')"
  by (induction r) (auto simp add: field_def)

lemma field_assign_all:
  "k \<notin> fst ` set payload \<Longrightarrow> field (assign_all payload r) k = field r k"
  by (induction payload arbitrary: r) (auto simp add: field_assign)

lemma payload_columns:
  "fst ` set (serialised (update_payload updates))
     \<subseteq> {''first_name'', ''last_name'', ''phone'', ''avatar''}"
  by (auto simp add: serialised_def update_payload_def)

lemma update_users_frame:
  assumes "k \<notin> {''first_name'', ''last_name'', ''phone'', ''avatar''}" and "i < length rows"
  shows "field (update_users v (update_payload updates) rows ! i) k = field (rows ! i) k"
proof -
  have "k \<notin> fst ` set (serialised (update_payload updates))"
    using assms(1) payload_columns by blast
  then show ?thesis
    using assms(2) by (simp add: update_users_def field_assign_all)
qed

text \<open>
  C9. Whatever the \<^verbatim>\<open>updates\<close> argument holds, the service's \<^verbatim>\<open>updateProfile\<close> leaves
  the \<^verbatim>\<open>users\<close> table with the same rows in the same places, and in every row every
  column other than \<^verbatim>\<open>first_name\<close>, \<^verbatim>\<open>last_name\<close>, \<^verbatim>\<open>phone\<close> and \<^verbatim>\<open>avatar\<close> keeps its
  value: \<^verbatim>\<open>id\<close>, \<^verbatim>\<open>email\<close>, \<^verbatim>\<open>role\<close> and \<^verbatim>\<open>status\<close> among them. The join to the vendors is
  not touched either.
\<close>

theorem updateProfile_writes_four_columns:
  "length (users (snd (updateProfile be userId updates))) = length (users be)
   \<and> (\<forall>i < length (users be). \<forall>k.
         k \<notin> {''first_name'', ''last_name'', ''phone'', ''avatar''} \<longrightarrow>
         field (users (snd (updateProfile be userId updates)) ! i) k = field (users be ! i) k)
   \<and> vendors_embed (snd (updateProfile be userId updates)) = vendors_embed be"
proof (cases "users_fault be")
  case None
  then have u: "users (snd (updateProfile be userId updates))
      = update_users userId (update_payload updates) (users be)"
    and v: "vendors_embed (snd (updateProfile be userId updates)) = vendors_embed be"
    by (simp_all add: updateProfile_def Let_def)
  have "length (update_users userId (update_payload updates) (users be)) = length (users be)"
    by (simp add: update_users_def)
  with u v show ?thesis
    using update_users_frame by simp
next
  case (Some e)
  then show ?thesis by (simp add: updateProfile_def)
qed

theorem updateProfile_writes_four_columns_witness:
  "field (users demo_backend ! 0) ''role'' = JStr ''VENDOR''
   \<and> field overreaching_updates ''role'' = JStr ''ADMIN''
   \<and> field (users (snd (updateProfile demo_backend (JStr ''u1'') overreaching_updates)) ! 0) ''role''
       = JStr ''VENDOR''
   \<and> field (users (snd (updateProfile demo_backend (JStr ''u1'') overreaching_updates)) ! 0) ''id''
       = JStr ''u1''"
proof -
  have l: "0 < length (users demo_backend)" by (simp add: demo_backend_def)
  have k: "''role'' \<notin> {''first_name'', ''last_name'', ''phone'', ''avatar''}"
          "''id'' \<notin> {''first_name'', ''last_name'', ''phone'', ''avatar''}"
    by simp_all
  have v: "field (users demo_backend ! 0) ''role'' = JStr ''VENDOR''"
          "field (users demo_backend ! 0) ''id'' = JStr ''u1''"
          "field overreaching_updates ''role'' = JStr ''ADMIN''"
    by (simp_all add: demo_backend_def ana_row_def field_def overreaching_updates_def)
  from updateProfile_writes_four_columns [of demo_backend "JStr ''u1''" overreaching_updates]
  have "\<forall>i < length (users demo_backend). \<forall>k.
         k \<notin> {''first_name'', ''last_name'', ''phone'', ''avatar''} \<longrightarrow>
         field (users (snd (updateProfile demo_backend (JStr ''u1'') overreaching_updates)) ! i) k
           = field (users demo_backend ! i) k"
    by blast
  with l k v show ?thesis by metis
qed

end
